theory Spec2Isabelle
  imports Complex_Main "HOL-Library.Log_Nat"
begin

section \<open>Numbers\<close>

text \<open>
  The Python code computes with \<open>int\<close> and \<open>float\<close> values (the form layer hands it
  integers for amounts and floats for rates). Amounts and rates are modelled as exact
  rationals; binary floating-point rounding error is not part of this development.
  The only rounding that appears is the explicit \<open>round(x, 2)\<close> of the source.
\<close>

datatype py_error = ZeroDivisionError | OverflowError


text \<open>Python's \<open>round\<close> goes to the nearest integer and breaks a tie towards the even one.\<close>

definition round_half_even :: "rat \<Rightarrow> int" where
  "round_half_even x =
     (let f = \<lfloor>x\<rfloor>; d = x - of_int f
      in if d < 1 / 2 then f
         else if 1 / 2 < d then f + 1
         else if even f then f else f + 1)"

text \<open>\<open>round(x, 2)\<close>: two decimal places.\<close>

definition round2 :: "rat \<Rightarrow> rat" where
  "round2 x = of_int (round_half_even (x * 100)) / 100"

text \<open>Python's \<open>sum\<close>: it starts from 0 and adds the items from left to right.\<close>

definition py_sum :: "rat list \<Rightarrow> rat" where
  "py_sum xs = foldl (\<lambda>acc x. acc + x) 0 xs"

definition DEFAULT_ANNUAL_RETURN :: rat where
  "DEFAULT_ANNUAL_RETURN = 29 / 1000"

section \<open>Core domain classes\<close>

text \<open>
  Property objects are mutated in place by the engine and are reachable both from the
  property collection and from the payload of a purchase event, so they live in an
  object store and are referred to by reference. Incomes and expenses are never
  mutated and are plain values.
\<close>

type_synonym ref = nat

record property =
  name :: string
  gross_value :: rat
  buying_taxes :: rat
  debt :: rat
  taxe_fonciere :: rat
  charges_copro :: rat
  loan_amount :: rat
  loan_duration :: int
  loan_interest_rate :: rat
  loan_monthly_payment :: rat
  yearly_amortization :: rat



datatype expense = Expense (name: string) (yearly_amount: rat)

datatype income = Income (name: string) (yearly_amount: rat)

record networth =
  cash :: rat
  investments :: rat
  properties :: "ref list"

text \<open>
  \<open>NetWorth.compute_networth\<close>; the first argument is the object store through which
  the property references are read.
\<close>

definition compute_networth :: "(ref \<Rightarrow> property) \<Rightarrow> networth \<Rightarrow> rat" where
  "compute_networth h nw =
     cash nw + investments nw
     + py_sum (map (\<lambda>p. gross_value (h p) - debt (h p)) (properties nw))"

section \<open>Event system\<close>

text \<open>
  An event carries an action string and a payload whose shape depends on the action:
  an entity for the add and buy actions, a dictionary with a \<open>name\<close> entry for the
  remove and sell actions. The two are one tagged value here; \<open>Other_action\<close> stands
  for any action string that is none of the six, which \<open>Event.apply\<close> ignores.
\<close>

datatype action =
    Add_income income
  | Remove_income string
  | Add_expense expense
  | Remove_expense string
  | Buy_property ref
  | Sell_property string
  | Other_action string

datatype event = Event (year: int) (action: action)

record snapshot =
  Year :: int
  Available_for_investment :: rat
  Investments_total :: rat
  Net_worth :: rat

section \<open>Simulation engine\<close>

record simulation =
  current_year :: int
  networth :: networth
  incomes :: "income list"
  expenses :: "expense list"
  events :: "event list"
  r_annual :: rat
  simulation_results :: "snapshot list"
  objects :: "ref \<Rightarrow> property"

text \<open>\<open>Simulation.__init__\<close>; Python's \<open>sorted\<close> is stable, as \<open>sort_key\<close> is.\<close>

definition Simulation ::
  "(ref \<Rightarrow> property) \<Rightarrow> networth \<Rightarrow> income list \<Rightarrow> expense list \<Rightarrow> event list \<Rightarrow> rat
     \<Rightarrow> simulation" where
  "Simulation h nw incs exps evs r =
     \<lparr>current_year = 0, networth = nw, incomes = incs, expenses = exps,
      events = sort_key year evs, r_annual = r, simulation_results = [], objects = h\<rparr>"

text \<open>\<open>Event._apply_buy_property\<close>.\<close>

definition apply_buy_property :: "ref \<Rightarrow> simulation \<Rightarrow> simulation" where
  "apply_buy_property prop s =
     (let nw = networth s;
          total_cost = gross_value (objects s prop) + buying_taxes (objects s prop);
          nw' = (if investments nw \<ge> total_cost
                 then nw\<lparr>investments := investments nw - total_cost\<rparr>
                 else (let remaining = total_cost - investments nw
                       in nw\<lparr>investments := 0, cash := cash nw - remaining\<rparr>))
      in s\<lparr>networth := nw'\<lparr>properties := properties nw' @ [prop]\<rparr>\<rparr>)"

text \<open>
  \<open>Event._apply_sell_property\<close>. \<open>next(..., None)\<close> is \<open>find\<close>; \<open>list.remove\<close> drops
  the first occurrence of the object found.
\<close>

definition apply_sell_property :: "string \<Rightarrow> simulation \<Rightarrow> simulation" where
  "apply_sell_property nm s =
     (let nw = networth s
      in case find (\<lambda>p. property.name (objects s p) = nm) (properties nw) of
           None \<Rightarrow> s
         | Some prop \<Rightarrow>
             s\<lparr>networth := nw
                 \<lparr>cash := cash nw
                    + (gross_value (objects s prop) - debt (objects s prop) - 1000),
                  properties := remove1 prop (properties nw)\<rparr>\<rparr>)"

text \<open>\<open>Event.apply\<close>.\<close>

fun event_apply :: "event \<Rightarrow> simulation \<Rightarrow> simulation" where
  "event_apply (Event y (Add_income i)) s = s\<lparr>incomes := incomes s @ [i]\<rparr>"
| "event_apply (Event y (Remove_income nm)) s =
     s\<lparr>incomes := filter (\<lambda>i. income.name i \<noteq> nm) (incomes s)\<rparr>"
| "event_apply (Event y (Add_expense e)) s = s\<lparr>expenses := expenses s @ [e]\<rparr>"
| "event_apply (Event y (Remove_expense nm)) s =
     s\<lparr>expenses := filter (\<lambda>e. expense.name e \<noteq> nm) (expenses s)\<rparr>"
| "event_apply (Event y (Buy_property prop)) s = apply_buy_property prop s"
| "event_apply (Event y (Sell_property nm)) s = apply_sell_property nm s"
| "event_apply (Event y (Other_action a)) s = s"

text \<open>\<open>Simulation._apply_yearly_events\<close>.\<close>

definition apply_yearly_events :: "simulation \<Rightarrow> simulation" where
  "apply_yearly_events s =
     fold event_apply (filter (\<lambda>e. year e = current_year s) (events s)) s"

text \<open>The body of the loop of \<open>Simulation._update_loans\<close>, on one property object.\<close>

definition update_loan :: "property \<Rightarrow> property" where
  "update_loan prop =
     (if 0 < loan_duration prop
      then prop\<lparr>debt := round2 (debt prop - yearly_amortization prop),
                loan_duration := loan_duration prop - 1\<rparr>
      else prop\<lparr>debt := 0, loan_monthly_payment := 0\<rparr>)"

text \<open>
  \<open>Simulation._update_loans\<close>: the loop visits the collection in order and writes each
  object back to the store, so an object listed twice is updated twice.
\<close>

definition update_loans :: "simulation \<Rightarrow> simulation" where
  "update_loans s =
     s\<lparr>objects := fold (\<lambda>p h. h(p := update_loan (h p))) (properties (networth s)) (objects s)\<rparr>"

text \<open>The value \<open>available_for_investment\<close> of \<open>Simulation._apply_expenses_and_incomes\<close>.\<close>

definition available_for_investment :: "simulation \<Rightarrow> rat" where
  "available_for_investment s =
     (let property_expenses =
            py_sum (map (\<lambda>p. taxe_fonciere (objects s p) + charges_copro (objects s p)
                                + loan_monthly_payment (objects s p) * 12)
                        (properties (networth s)));
          total_expenses = py_sum (map expense.yearly_amount (expenses s)) + property_expenses
      in py_sum (map income.yearly_amount (incomes s)) - total_expenses)"

text \<open>\<open>Simulation._apply_expenses_and_incomes\<close>.\<close>

definition apply_expenses_and_incomes :: "simulation \<Rightarrow> simulation" where
  "apply_expenses_and_incomes s =
     (let nw = networth s;
          nw1 = nw\<lparr>cash := cash nw + available_for_investment s\<rparr>;
          nw2 = nw1\<lparr>investments := investments nw1 + cash nw1\<rparr>
      in s\<lparr>networth := nw2\<lparr>cash := 0\<rparr>\<rparr>)"

text \<open>\<open>Simulation._grow_investments\<close>.\<close>

definition grow_investments :: "simulation \<Rightarrow> simulation" where
  "grow_investments s =
     s\<lparr>networth := (networth s)
         \<lparr>investments := round2 (investments (networth s) * (1 + r_annual s))\<rparr>\<rparr>"

text \<open>The value \<open>available_for_investment\<close> that \<open>Simulation._record_results\<close> recomputes.\<close>

definition recorded_available :: "simulation \<Rightarrow> rat" where
  "recorded_available s =
     py_sum (map income.yearly_amount (incomes s))
     - py_sum (map expense.yearly_amount (expenses s))
     - py_sum (map (\<lambda>p. taxe_fonciere (objects s p) + charges_copro (objects s p)
                          + loan_monthly_payment (objects s p) * 12)
                  (properties (networth s)))"

text \<open>\<open>Simulation._record_results\<close>.\<close>

definition record_results :: "simulation \<Rightarrow> simulation" where
  "record_results s =
     s\<lparr>simulation_results := simulation_results s @
         [\<lparr>Year = current_year s,
           Available_for_investment = recorded_available s,
           Investments_total = investments (networth s),
           Net_worth = compute_networth (objects s) (networth s)\<rparr>]\<rparr>"

text \<open>The body of the loop of \<open>Simulation.run\<close>, for the loop variable \<open>y\<close>.\<close>

definition yearly_tick :: "int \<Rightarrow> simulation \<Rightarrow> simulation" where
  "yearly_tick y s =
     record_results (grow_investments (apply_expenses_and_incomes
       (update_loans (apply_yearly_events (s\<lparr>current_year := y\<rparr>)))))"

text \<open>\<open>Simulation.run\<close>: \<open>range(1, years + 1)\<close> is the list \<open>[1..years]\<close>.\<close>

definition run :: "int \<Rightarrow> simulation \<Rightarrow> simulation" where
  "run years s = fold yearly_tick [1..years] s"

text \<open>\<open>Simulation.reset\<close>.\<close>

definition reset :: "simulation \<Rightarrow> simulation" where
  "reset s = s\<lparr>current_year := 0, simulation_results := []\<rparr>"


section \<open>Example data\<close>

text \<open>The content of store cells that no example refers to.\<close>

definition blank_property :: property where
  "blank_property =
     \<lparr>property.name = [], gross_value = 0, buying_taxes = 0, debt = 0,
      taxe_fonciere = 0, charges_copro = 0, loan_amount = 0,
      loan_duration = 0, loan_interest_rate = 0,
      loan_monthly_payment = 0, yearly_amortization = 0\<rparr>"

text \<open>
  A household with a salary and living expenses, no property and no event:
  \<open>Simulation(NetWorth(0, 10000, []), [Income("Salary", 5000)],
  [Expense("Living", 3000)], [], r_annual=0.03)\<close>.
\<close>

definition salary_sim :: simulation where
  "salary_sim =
     Simulation (\<lambda>_. blank_property)
       \<lparr>cash = 0, investments = 10000, properties = []\<rparr>
       [Income ''Salary'' 5000] [Expense ''Living'' 3000] [] (3 / 100)"

text \<open>
  The object that \<open>Property("Flat", 100000, 0, 1200, 0, 0, 1200, 1, 0.12)\<close> builds: a
  one-year loan of 1200 at 1 percent a month, and a simulation that owns it.
\<close>

definition loan_flat :: property where
  "loan_flat =
     \<lparr>property.name = ''Flat'', gross_value = 100000, buying_taxes = 0, debt = 1200,
      taxe_fonciere = 0, charges_copro = 0, loan_amount = 1200,
      loan_duration = 1, loan_interest_rate = 12 / 100,
      loan_monthly_payment = 5331 / 50, yearly_amortization = 1200\<rparr>"

definition loan_sim :: simulation where
  "loan_sim =
     Simulation ((\<lambda>_. blank_property)(0 := loan_flat))
       \<lparr>cash = 0, investments = 0, properties = [0]\<rparr> [] [] [] 0"

text \<open>
  A purchase that investments do not cover: \<open>Property("House", 100000, 5000, 0, 0, 0)\<close>
  bought with investments of 50000.
\<close>

definition house :: property where
  "house =
     \<lparr>property.name = ''House'', gross_value = 100000, buying_taxes = 5000, debt = 0,
      taxe_fonciere = 0, charges_copro = 0, loan_amount = 0,
      loan_duration = 0, loan_interest_rate = 0,
      loan_monthly_payment = 0, yearly_amortization = 0\<rparr>"

definition buy_sim :: simulation where
  "buy_sim =
     Simulation ((\<lambda>_. blank_property)(0 := house))
       \<lparr>cash = 0, investments = 50000, properties = []\<rparr>
       [] [] [Event 1 (Buy_property 0)] (3 / 100)"

text \<open>
  \<open>Property("Flat", 200000, 0, 50000, 0, 0)\<close>, owned from the start, with the events
  given and no investment return.
\<close>

definition flat :: property where
  "flat =
     \<lparr>property.name = ''Flat'', gross_value = 200000, buying_taxes = 0, debt = 50000,
      taxe_fonciere = 0, charges_copro = 0, loan_amount = 0,
      loan_duration = 0, loan_interest_rate = 0,
      loan_monthly_payment = 0, yearly_amortization = 0\<rparr>"

definition flat_sim :: "event list \<Rightarrow> simulation" where
  "flat_sim evs =
     Simulation ((\<lambda>_. blank_property)(0 := flat))
       \<lparr>cash = 0, investments = 0, properties = [0]\<rparr> [] [] evs 0"



section \<open>Auxiliary facts\<close>

subsection \<open>Sums and rounding\<close>

lemma foldl_add_sum_list: "foldl (\<lambda>acc x. acc + x) a xs = a + sum_list xs" for a :: rat
  by (induction xs arbitrary: a) (simp_all add: add.assoc)

lemma py_sum_sum_list: "py_sum xs = sum_list xs"
  by (simp add: py_sum_def foldl_add_sum_list)




subsection \<open>Loan details\<close>




subsection \<open>What each step leaves alone\<close>

lemma event_apply_frame:
  "current_year (event_apply e s) = current_year s"
  "events (event_apply e s) = events s"
  "r_annual (event_apply e s) = r_annual s"
  "simulation_results (event_apply e s) = simulation_results s"
  "objects (event_apply e s) = objects s"
  by (cases "(e, s)" rule: event_apply.cases;
      simp add: apply_buy_property_def apply_sell_property_def Let_def split: option.splits)+

lemma fold_event_apply_frame:
  "current_year (fold event_apply es s) = current_year s"
  "events (fold event_apply es s) = events s"
  "r_annual (fold event_apply es s) = r_annual s"
  "simulation_results (fold event_apply es s) = simulation_results s"
  "objects (fold event_apply es s) = objects s"
  by (induction es arbitrary: s; simp add: event_apply_frame)+

lemma apply_yearly_events_frame:
  "current_year (apply_yearly_events s) = current_year s"
  "events (apply_yearly_events s) = events s"
  "r_annual (apply_yearly_events s) = r_annual s"
  "simulation_results (apply_yearly_events s) = simulation_results s"
  "objects (apply_yearly_events s) = objects s"
  by (simp_all add: apply_yearly_events_def fold_event_apply_frame)




lemma sweep_investments:
  "investments (networth (apply_expenses_and_incomes s)) =
     investments (networth s) + (cash (networth s) + available_for_investment s)"
  by (simp add: apply_expenses_and_incomes_def Let_def)

subsection \<open>The yearly tick and the loop\<close>

lemma yearly_tick_cash: "cash (networth (yearly_tick y s)) = 0"
  by (simp add: yearly_tick_def record_results_def grow_investments_def
      apply_expenses_and_incomes_def Let_def)

lemma yearly_tick_current_year: "current_year (yearly_tick y s) = y"
  by (simp add: yearly_tick_def record_results_def grow_investments_def
      apply_expenses_and_incomes_def Let_def update_loans_def apply_yearly_events_frame)

lemma yearly_tick_results:
  "simulation_results (yearly_tick y s) =
     simulation_results s @
       [\<lparr>Year = y,
         Available_for_investment =
           available_for_investment (update_loans (apply_yearly_events (s\<lparr>current_year := y\<rparr>))),
         Investments_total = investments (networth (yearly_tick y s)),
         Net_worth = compute_networth (objects (yearly_tick y s)) (networth (yearly_tick y s))\<rparr>]"
  by (simp add: yearly_tick_def record_results_def grow_investments_def
      apply_expenses_and_incomes_def Let_def recorded_available_def available_for_investment_def
      update_loans_def apply_yearly_events_frame)

lemma yearly_tick_years:
  "map Year (simulation_results (yearly_tick y s)) = map Year (simulation_results s) @ [y]"
  by (simp add: yearly_tick_results)

lemma run_step: "1 \<le> n \<Longrightarrow> run n s = yearly_tick n (run (n - 1) s)"
  by (simp add: run_def upto_rec2)

lemma run_nonpos: "n \<le> 0 \<Longrightarrow> run n s = s"
  by (simp add: run_def)

lemma run_split:
  assumes "0 \<le> k" "k \<le> n"
  shows "run n s = fold yearly_tick [k + 1..n] (run k s)"
proof (cases "k = n")
  case True
  then show ?thesis by simp
next
  case False
  with assms have "[1..n] = [1..(k + 1) - 1] @ [k + 1..n]"
    by (intro upto_split1) simp_all
  then show ?thesis by (simp add: run_def)
qed

lemma run_years_nat:
  "map Year (simulation_results (run (int n) s)) = map Year (simulation_results s) @ [1..int n]"
proof (induction n)
  case 0
  then show ?case by (simp add: run_nonpos)
next
  case (Suc n)
  have "run (int (Suc n)) s = yearly_tick (int (Suc n)) (run (int n) s)"
    by (simp add: run_step)
  moreover have "[1..int (Suc n)] = [1..int n] @ [int (Suc n)]"
    by (simp add: upto_rec2)
  ultimately show ?case
    using Suc.IH by (simp add: yearly_tick_years)
qed

lemma run_years:
  "map Year (simulation_results (run m s)) = map Year (simulation_results s) @ [1..m]"
proof (cases "0 \<le> m")
  case True
  then show ?thesis using run_years_nat [of "nat m" s] by simp
next
  case False
  then show ?thesis by (simp add: run_nonpos)
qed

lemma upto_1_2: "[1..2::int] = [1, 2]"
  by (simp add: upto.simps)

lemma upto_1_3: "[1..3::int] = [1, 2, 3]"
  by (simp add: upto.simps)

lemma salary_sim_fresh: "current_year salary_sim = 0" "simulation_results salary_sim = []"
  by (simp_all add: salary_sim_def Simulation_def)

subsection \<open>The object store under the loan update\<close>










subsection \<open>Selling a property\<close>













section \<open>The claims\<close>

subsection \<open>C1: what a second run does\<close>

text \<open>
  C1, as the code has it. \<open>run(years)\<close> iterates the loop variable over \<open>1..years\<close>
  whatever \<open>current_year\<close> was before: it appends one snapshot for each of the years
  \<open>1, ..., years\<close>, in order, after the snapshots already recorded, ends with
  \<open>current_year = years\<close> when \<open>years\<close> is at least 1 and does nothing otherwise. On a
  fresh or reset simulation, where \<open>current_year = 0\<close>, that range is
  \<open>current_year + 1 .. years\<close>.
\<close>

theorem run_restarts_at_year_one:
  "map Year (simulation_results (run m s)) = map Year (simulation_results s) @ [1..m] \<and>
   (1 \<le> m \<longrightarrow> current_year (run m s) = m) \<and>
   (m \<le> 0 \<longrightarrow> run m s = s) \<and>
   (current_year s = 0 \<longrightarrow> run m s = fold yearly_tick [current_year s + 1..m] s)"
  by (simp add: run_years run_nonpos run_step yearly_tick_current_year) (simp add: run_def)

text \<open>
  On the salaried household: a first \<open>run(2)\<close> records the years 1, 2; a second
  \<open>run(3)\<close> without reset records 1, 2, 3 again behind them; \<open>run(0)\<close> changes nothing.
\<close>

theorem run_restarts_at_year_one_witness:
  "current_year salary_sim = 0 \<and>
   map Year (simulation_results (run 2 salary_sim)) = [1, 2] \<and>
   current_year (run 2 salary_sim) = 2 \<and>
   map Year (simulation_results (run 3 (run 2 salary_sim))) = [1, 2, 1, 2, 3] \<and>
   current_year (run 3 (run 2 salary_sim)) = 3 \<and>
   run 0 (run 2 salary_sim) = run 2 salary_sim"
proof -
  note first = run_restarts_at_year_one [of 2 salary_sim]
  note second = run_restarts_at_year_one [of 3 "run 2 salary_sim"]
  note none = run_restarts_at_year_one [of 0 "run 2 salary_sim"]
  from first [THEN conjunct1]
  have y2: "map Year (simulation_results (run 2 salary_sim)) = [1, 2]"
    by (simp add: salary_sim_fresh upto_1_2)
  from first [THEN conjunct2, THEN conjunct1]
  have c2: "current_year (run 2 salary_sim) = 2" by simp
  from second [THEN conjunct1] y2
  have y3: "map Year (simulation_results (run 3 (run 2 salary_sim))) = [1, 2, 1, 2, 3]"
    by (simp add: upto_1_3)
  from second [THEN conjunct2, THEN conjunct1]
  have c3: "current_year (run 3 (run 2 salary_sim)) = 3" by simp
  from none [THEN conjunct2, THEN conjunct2, THEN conjunct1]
  have n0: "run 0 (run 2 salary_sim) = run 2 salary_sim" by simp
  from y2 c2 y3 c3 n0 show ?thesis by (simp add: salary_sim_fresh)
qed

text \<open>
  C1 as stated fails. After \<open>run(2)\<close> the salaried household has \<open>current_year = 2\<close>;
  a second call \<open>run(3)\<close> records the years 1, 2, 3 behind the first two snapshots,
  where continuing from year 3 would have recorded the single year 3.
\<close>

theorem run_continues_counterexample:
  "current_year (run 2 salary_sim) = 2 \<and>
   map Year (simulation_results (run 3 (run 2 salary_sim))) = [1, 2, 1, 2, 3] \<and>
   map Year (simulation_results (fold yearly_tick [2 + 1..3] (run 2 salary_sim))) = [1, 2, 3] \<and>
   run 3 (run 2 salary_sim) \<noteq> fold yearly_tick [2 + 1..3] (run 2 salary_sim)"
proof -
  have a: "current_year (run 2 salary_sim) = 2"
    by (simp add: run_step yearly_tick_current_year)
  have y2: "map Year (simulation_results (run 2 salary_sim)) = [1, 2]"
    by (simp add: run_years salary_sim_fresh upto_1_2)
  then have b: "map Year (simulation_results (run 3 (run 2 salary_sim))) = [1, 2, 1, 2, 3]"
    by (simp add: run_years upto_1_3)
  have "fold yearly_tick [2 + 1..3] (run 2 salary_sim) = yearly_tick 3 (run 2 salary_sim)"
    by (simp add: upto.simps)
  with y2 have c: "map Year (simulation_results (fold yearly_tick [2 + 1..3] (run 2 salary_sim))) = [1, 2, 3]"
    by (simp add: yearly_tick_years)
  from b c have d: "run 3 (run 2 salary_sim) \<noteq> fold yearly_tick [2 + 1..3] (run 2 salary_sim)"
    by auto
  from a b c d show ?thesis by blast
qed

subsection \<open>C2: the loan fields of a retired loan\<close>




subsection \<open>C3: what a sale does to cash, to the collection and to the net worth\<close>




subsection \<open>C4: the loan schedule computed at construction\<close>



subsection \<open>C5: funding a purchase\<close>

text \<open>
  C5. A "Buy property" event with total cost \<open>C = gross_value + buying_taxes\<close> takes
  \<open>min C investments\<close> out of investments; when investments are below \<open>C\<close> they become
  exactly 0 and the shortfall \<open>C - investments\<close> is subtracted from cash, with no check
  on its sign; otherwise cash is untouched. In every case the payload is appended to the
  property collection.
\<close>

theorem buy_property_funding:
  "investments (networth (event_apply (Event y (Buy_property p)) s)) =
     investments (networth s)
     - min (gross_value (objects s p) + buying_taxes (objects s p)) (investments (networth s)) \<and>
   (investments (networth s) < gross_value (objects s p) + buying_taxes (objects s p) \<longrightarrow>
      investments (networth (event_apply (Event y (Buy_property p)) s)) = 0 \<and>
      cash (networth (event_apply (Event y (Buy_property p)) s)) =
        cash (networth s)
        - (gross_value (objects s p) + buying_taxes (objects s p) - investments (networth s))) \<and>
   (gross_value (objects s p) + buying_taxes (objects s p) \<le> investments (networth s) \<longrightarrow>
      cash (networth (event_apply (Event y (Buy_property p)) s)) = cash (networth s)) \<and>
   properties (networth (event_apply (Event y (Buy_property p)) s)) =
     properties (networth s) @ [p]"
  by (simp add: apply_buy_property_def Let_def min_def)

text \<open>
  A house of 100000 with 5000 of taxes bought with 50000 of investments: investments go
  to 0, cash goes from 0 to -55000, and the house is owned.
\<close>

theorem buy_property_funding_witness:
  "investments (networth buy_sim) = 50000 \<and> cash (networth buy_sim) = 0 \<and>
   investments (networth (event_apply (Event 1 (Buy_property 0)) buy_sim)) = 0 \<and>
   cash (networth (event_apply (Event 1 (Buy_property 0)) buy_sim)) = - 55000 \<and>
   properties (networth (event_apply (Event 1 (Buy_property 0)) buy_sim)) = [0]"
proof -
  have s: "investments (networth buy_sim) = 50000" "cash (networth buy_sim) = 0"
    "properties (networth buy_sim) = []"
    "gross_value (objects buy_sim 0) = 100000" "buying_taxes (objects buy_sim 0) = 5000"
    by (simp_all add: buy_sim_def Simulation_def house_def)
  from buy_property_funding [of 1 0 buy_sim] show ?thesis
    by (simp add: s)
qed

subsection \<open>C6: cash is swept every year\<close>

text \<open>
  C6. Step 3 of a tick adds the year's net flow to cash, moves all of it into
  investments and sets cash to 0; every yearly tick ends with \<open>cash = 0\<close>. In
  \<open>run(N)\<close> the state after the \<open>k\<close>-th tick, for \<open>1 \<le> k \<le> N\<close>, is \<open>run k\<close> of the
  start state, and its cash is 0; so cash is 0 when \<open>run(N)\<close> returns, for \<open>N \<ge> 1\<close>.
\<close>

theorem cash_zero_after_every_tick:
  "investments (networth (apply_expenses_and_incomes s)) =
     investments (networth s) + (cash (networth s) + available_for_investment s) \<and>
   cash (networth (apply_expenses_and_incomes s)) = 0 \<and>
   cash (networth (yearly_tick y s)) = 0 \<and>
   (\<forall>k. 1 \<le> k \<and> k \<le> n \<longrightarrow>
      run n s = fold yearly_tick [k + 1..n] (run k s) \<and> cash (networth (run k s)) = 0) \<and>
   (1 \<le> n \<longrightarrow> cash (networth (run n s)) = 0)"
proof -
  have tick: "cash (networth (run k s)) = 0" if "1 \<le> k" for k
    using that by (simp add: run_step yearly_tick_cash)
  have sweep: "cash (networth (apply_expenses_and_incomes s)) = 0"
    by (simp add: apply_expenses_and_incomes_def Let_def)
  show ?thesis
    using tick by (simp add: yearly_tick_cash run_split sweep_investments sweep)
qed

text \<open>
  On the salaried household cash is 0 after the first and after the second year of
  \<open>run(2)\<close>, the second year continuing from the state the first one left.
\<close>

theorem cash_zero_after_every_tick_witness:
  "run 2 salary_sim = fold yearly_tick [1 + 1..2] (run 1 salary_sim) \<and>
   cash (networth (run 1 salary_sim)) = 0 \<and>
   cash (networth (run 2 salary_sim)) = 0 \<and>
   investments (networth (run 1 salary_sim)) = 12360"
proof -
  note all = cash_zero_after_every_tick [where n = 2 and s = salary_sim and y = 1]
  from all have a: "run 2 salary_sim = fold yearly_tick [1 + 1..2] (run 1 salary_sim) \<and>
      cash (networth (run 1 salary_sim)) = 0"
    by (elim conjE allE [of _ 1]) simp
  from all have b: "cash (networth (run 2 salary_sim)) = 0"
    by (elim conjE) simp
  have c: "investments (networth (run 1 salary_sim)) = 12360"
    by code_simp
  from a b c show ?thesis by simp
qed

subsection \<open>C7: removing or selling what is not there\<close>

text \<open>
  C7. A "Remove income" or "Remove expense" event whose name matches no active income or
  expense, and a "Sell property" event whose name matches no owned property, return the
  state they were given: incomes, expenses, properties, cash, investments and everything
  else are unchanged. The model has no error result for them.
\<close>

theorem remove_sell_no_match_noop:
  "((\<forall>i \<in> set (incomes s). income.name i \<noteq> nm) \<longrightarrow>
      event_apply (Event y (Remove_income nm)) s = s) \<and>
   ((\<forall>e \<in> set (expenses s). expense.name e \<noteq> nm) \<longrightarrow>
      event_apply (Event y (Remove_expense nm)) s = s) \<and>
   ((\<forall>p \<in> set (properties (networth s)). property.name (objects s p) \<noteq> nm) \<longrightarrow>
      event_apply (Event y (Sell_property nm)) s = s)"
proof (intro conjI impI)
  assume "\<forall>i \<in> set (incomes s). income.name i \<noteq> nm"
  then have "filter (\<lambda>i. income.name i \<noteq> nm) (incomes s) = incomes s"
    by (simp add: filter_id_conv)
  then show "event_apply (Event y (Remove_income nm)) s = s" by simp
next
  assume "\<forall>e \<in> set (expenses s). expense.name e \<noteq> nm"
  then have "filter (\<lambda>e. expense.name e \<noteq> nm) (expenses s) = expenses s"
    by (simp add: filter_id_conv)
  then show "event_apply (Event y (Remove_expense nm)) s = s" by simp
next
  assume "\<forall>p \<in> set (properties (networth s)). property.name (objects s p) \<noteq> nm"
  then have "find (\<lambda>p. property.name (objects s p) = nm) (properties (networth s)) = None"
    by (simp add: find_None_iff)
  then show "event_apply (Event y (Sell_property nm)) s = s"
    by (simp add: apply_sell_property_def)
qed

text \<open>
  The salaried household has no income called Bonus and no expense called Rent, and the
  simulation that owns the flat with the loan owns no house.
\<close>

theorem remove_sell_no_match_noop_witness:
  "event_apply (Event 1 (Remove_income ''Bonus'')) salary_sim = salary_sim \<and>
   event_apply (Event 1 (Remove_expense ''Rent'')) salary_sim = salary_sim \<and>
   event_apply (Event 1 (Sell_property ''House'')) loan_sim = loan_sim"
proof -
  have i: "\<forall>i \<in> set (incomes salary_sim). income.name i \<noteq> ''Bonus''"
    by (simp add: salary_sim_def Simulation_def)
  have e: "\<forall>e \<in> set (expenses salary_sim). expense.name e \<noteq> ''Rent''"
    by (simp add: salary_sim_def Simulation_def)
  have p: "\<forall>p \<in> set (properties (networth loan_sim)). property.name (objects loan_sim p) \<noteq> ''House''"
    by (simp add: loan_sim_def Simulation_def loan_flat_def)
  from remove_sell_no_match_noop [of salary_sim "''Bonus''" 1, THEN conjunct1, THEN mp, OF i]
    remove_sell_no_match_noop [of salary_sim "''Rent''" 1, THEN conjunct2, THEN conjunct1,
      THEN mp, OF e]
    remove_sell_no_match_noop [of loan_sim "''House''" 1, THEN conjunct2, THEN conjunct2,
      THEN mp, OF p]
  show ?thesis by (intro conjI)
qed

subsection \<open>C8: the net worth\<close>

text \<open>
  C8. \<open>compute_networth\<close> is a function of the net worth object and the store that returns
  a number and nothing else: \<open>cash + investments\<close> plus the sum over the owned properties
  of \<open>gross_value - debt\<close>. After zero simulated years a new simulation reports the same
  figure for its initial cash, investments and properties.
\<close>

theorem compute_networth_total:
  "compute_networth h nw =
     cash nw + investments nw + (\<Sum>p\<leftarrow>properties nw. gross_value (h p) - debt (h p)) \<and>
   compute_networth (objects (run 0 (Simulation h nw incs exps evs r)))
       (networth (run 0 (Simulation h nw incs exps evs r))) =
     cash nw + investments nw + (\<Sum>p\<leftarrow>properties nw. gross_value (h p) - debt (h p))"
  by (simp add: compute_networth_def py_sum_sum_list run_def Simulation_def)

text \<open>The flat worth 200000 with a debt of 50000, and nothing else: a net worth of 150000.\<close>

theorem compute_networth_total_witness:
  "compute_networth (objects (run 0 (flat_sim []))) (networth (run 0 (flat_sim []))) = 150000"
  using compute_networth_total
    [of "(\<lambda>_. blank_property)(0 := flat)" "\<lparr>cash = 0, investments = 0, properties = [0]\<rparr>"
        "[]" "[]" "[]" 0]
  by (simp add: flat_sim_def flat_def)

subsection \<open>C9: reset\<close>

text \<open>
  C9. \<open>reset\<close> sets \<open>current_year\<close> to 0 and \<open>simulation_results\<close> to the empty list and
  leaves the net worth, the incomes, the expenses, the events, the return rate and the
  property objects as they are; \<open>run(0)\<close> after it leaves no result and
  \<open>current_year = 0\<close>.
\<close>

theorem reset_frame:
  "current_year (reset s) = 0 \<and> simulation_results (reset s) = [] \<and>
   networth (reset s) = networth s \<and> incomes (reset s) = incomes s \<and>
   expenses (reset s) = expenses s \<and> events (reset s) = events s \<and>
   r_annual (reset s) = r_annual s \<and> objects (reset s) = objects s \<and>
   simulation_results (run 0 (reset s)) = [] \<and> current_year (run 0 (reset s)) = 0"
  by (simp add: reset_def run_def)

text \<open>
  After one year the salaried household has investments of 12360; a reset keeps them
  (the initial 10000 are not restored) and clears year and results.
\<close>

theorem reset_frame_witness:
  "investments (networth (reset (run 1 salary_sim))) = 12360 \<and>
   investments (networth salary_sim) = 10000 \<and>
   current_year (reset (run 1 salary_sim)) = 0 \<and>
   simulation_results (reset (run 1 salary_sim)) = [] \<and>
   simulation_results (run 0 (reset (run 1 salary_sim))) = []"
proof -
  have a: "investments (networth (run 1 salary_sim)) = 12360"
    by code_simp
  have b: "investments (networth salary_sim) = 10000"
    by (simp add: salary_sim_def Simulation_def)
  from reset_frame [of "run 1 salary_sim"] a b show ?thesis by simp
qed

subsection \<open>C10: the recorded value of available for investment\<close>



end
